theory Spec2Isabelle
  imports
    Complex_Main
    "HOL-Library.Char_ord"
    "HOL-Library.List_Lexorder"
    "HOL-Library.Option_ord"
    "HOL-Library.Product_Lexorder"
    "HOL-Library.Multiset"
begin

section \<open>The jobs table\<close>

text \<open>
  One row of the table \<open>jobs\<close> created by \<open>init_db\<close>. A \<open>TEXT\<close> or \<open>REAL\<close> column that
  an insert can leave \<open>NULL\<close> is an option (\<open>None\<close> is \<open>NULL\<close>). \<open>status\<close>, \<open>notes\<close>,
  \<open>created_at\<close>, \<open>checked\<close> and \<open>is_remote\<close> are never \<open>NULL\<close>: inserts leave the first
  four to their defaults or bind 0/1, and \<open>update_job\<close> only binds values that are not
  \<open>None\<close>. Text is a list of characters, each a code point below 256.
\<close>

record job =
  job_id :: int
  site :: "string option"
  title :: "string option"
  company :: "string option"
  location :: "string option"
  job_type :: "string option"
  date_posted :: "string option"
  job_url :: "string option"
  salary_min :: "real option"
  salary_max :: "real option"
  salary_source :: "string option"
  is_remote :: bool
  checked :: bool
  status :: string
  job_notes :: string
  applied_at :: "string option"
  created_at :: string

text \<open>
  The database file: the rows of \<open>jobs\<close> in rowid order, and the \<open>AUTOINCREMENT\<close>
  counter (the largest id handed out so far).
\<close>

record database =
  jobs :: "job list"
  sqlite_sequence :: int

definition init_db :: database where
  "init_db = \<lparr>jobs = [], sqlite_sequence = 0\<rparr>"

datatype http_error = HTTPException nat string | Internal_Server_Error

datatype sqlite_error = IntegrityError

subsection \<open>INSERT OR IGNORE\<close>

text \<open>The eleven values bound by the \<open>INSERT\<close> statements (the CSV import binds ten and
  leaves \<open>salary_source\<close> \<open>NULL\<close>).\<close>

record insert_values =
  v_site :: "string option"
  v_title :: "string option"
  v_company :: "string option"
  v_location :: "string option"
  v_job_type :: "string option"
  v_date_posted :: "string option"
  v_job_url :: "string option"
  v_salary_min :: "real option"
  v_salary_max :: "real option"
  v_salary_source :: "string option"
  v_is_remote :: bool

definition new_job :: "int \<Rightarrow> string \<Rightarrow> insert_values \<Rightarrow> job" where
  "new_job i now v =
     \<lparr>job_id = i, site = v_site v, title = v_title v, company = v_company v,
      location = v_location v, job_type = v_job_type v, date_posted = v_date_posted v,
      job_url = v_job_url v, salary_min = v_salary_min v, salary_max = v_salary_max v,
      salary_source = v_salary_source v, is_remote = v_is_remote v,
      checked = False, status = ''new'', job_notes = '''', applied_at = None,
      created_at = now\<rparr>"

text \<open>
  The only constraint an insert can violate is \<open>job_url TEXT UNIQUE\<close> (the primary key is
  generated). \<open>UNIQUE\<close> compares values that are not \<open>NULL\<close>; any number of rows may hold
  \<open>NULL\<close>. \<open>OR IGNORE\<close> resolves the conflict by skipping the row: the statement raises
  nothing, so the result is never \<open>Inl IntegrityError\<close>. The rowid is generated before
  the constraint is checked, so an insert that is ignored uses up a number as well.
\<close>

definition unique_conflict :: "insert_values \<Rightarrow> database \<Rightarrow> bool" where
  "unique_conflict v db =
     (case v_job_url v of None \<Rightarrow> False
      | Some u \<Rightarrow> Some u \<in> set (map job_url (jobs db)))"

definition insert_or_ignore :: "string \<Rightarrow> insert_values \<Rightarrow> database \<Rightarrow> sqlite_error + database" where
  "insert_or_ignore now v db =
     (let rowid = sqlite_sequence db + 1 in
      if unique_conflict v db then Inr (db\<lparr>sqlite_sequence := rowid\<rparr>)
      else Inr \<lparr>jobs = jobs db @ [new_job rowid now v], sqlite_sequence = rowid\<rparr>)"

section \<open>Listing: \<open>get_jobs\<close>\<close>

text \<open>SQLite folds the case of the ASCII letters only.\<close>

definition sqlite_lower :: "char \<Rightarrow> char" where
  "sqlite_lower c =
     (if CHR ''A'' \<le> c \<and> c \<le> CHR ''Z'' then char_of (of_char c + (32::nat)) else c)"

text \<open>Python's \<open>str.lower\<close> on one character, which is also how \<open>re.IGNORECASE\<close>
  compares two characters below 256: the ASCII capitals and the capitals from U+00C0 to
  U+00DE (the multiplication sign U+00D7 is not a letter) move up by 32.\<close>

definition lower_char :: "char \<Rightarrow> char" where
  "lower_char c =
     (if (CHR ''A'' \<le> c \<and> c \<le> CHR ''Z'') \<or>
         (CHR 0xC0 \<le> c \<and> c \<le> CHR 0xDE \<and> c \<noteq> CHR 0xD7)
      then char_of (of_char c + (32::nat)) else c)"

definition lower :: "string \<Rightarrow> string" where
  "lower s = map lower_char s"

text \<open>SQLite's \<open>LIKE\<close>: \<open>%\<close> stands for any run of characters, \<open>_\<close> for any one character,
  every other character for itself up to the case of ASCII letters. The first argument
  is the pattern.\<close>

fun like :: "string \<Rightarrow> string \<Rightarrow> bool" where
  "like [] s = (s = [])"
| "like (p # ps) s =
     (if p = CHR ''%'' then
        (like ps s \<or> (case s of [] \<Rightarrow> False | _ # t \<Rightarrow> like (p # ps) t))
      else (case s of [] \<Rightarrow> False
            | c # t \<Rightarrow> (p = CHR ''_'' \<or> sqlite_lower p = sqlite_lower c) \<and> like ps t))"

text \<open>\<open>column LIKE ?\<close> on a \<open>NULL\<close> column is \<open>NULL\<close>, which an \<open>OR\<close> treats as not true.\<close>

definition column_like :: "string \<Rightarrow> string option \<Rightarrow> bool" where
  "column_like pat col = (case col of None \<Rightarrow> False | Some s \<Rightarrow> like pat s)"

definition where_clause :: "string option \<Rightarrow> bool option \<Rightarrow> string option \<Rightarrow> job \<Rightarrow> bool" where
  "where_clause st ch se j =
     ((case st of None \<Rightarrow> True
       | Some s \<Rightarrow> if s \<noteq> [] \<and> s \<noteq> ''all'' then status j = s else True) \<and>
      (case ch of None \<Rightarrow> True | Some c \<Rightarrow> checked j = c) \<and>
      (case se of None \<Rightarrow> True
       | Some q \<Rightarrow> if q \<noteq> [] then
           (let search_pattern = ''%'' @ q @ ''%''
            in column_like search_pattern (title j) \<or> column_like search_pattern (company j)
               \<or> column_like search_pattern (location j))
         else True))"

text \<open>
  \<open>ORDER BY date_posted DESC, created_at DESC\<close>. Text compares bytewise, and \<open>NULL\<close> is
  smaller than every text, which is the order of \<open>string option\<close>. Rows that tie on both
  keys stay in rowid order (SQLite's sorter is stable).
\<close>

definition order_key :: "job \<Rightarrow> string option \<times> string" where
  "order_key j = (date_posted j, created_at j)"

definition order_by_desc :: "job list \<Rightarrow> job list" where
  "order_by_desc js = rev (sort_key order_key (rev js))"

definition get_jobs :: "string option \<Rightarrow> bool option \<Rightarrow> string option \<Rightarrow> database \<Rightarrow> job list \<times> nat" where
  "get_jobs st ch se db =
     (let js = order_by_desc (filter (where_clause st ch se) (jobs db))
      in (js, length js))"

section \<open>Partial update: \<open>update_job\<close>\<close>

record job_update =
  upd_checked :: "bool option"
  upd_status :: "string option"
  upd_notes :: "string option"

datatype assignment =
    Set_checked bool
  | Set_status string
  | Set_applied_at "string option"
  | Set_notes string

text \<open>The list \<open>updates\<close> (with its parameters) that the function builds; \<open>today\<close> is
  \<open>datetime.now().strftime('%Y-%m-%d')\<close>. The id \<open>i\<close> of \<open>update_job\<close> and \<open>delete_job\<close>
  is the value bound to the statement, which SQLite holds in 64 bits; a path id outside
  that range makes the binding raise before the statement runs, and is not modelled.\<close>

definition build_updates :: "string \<Rightarrow> job_update \<Rightarrow> assignment list" where
  "build_updates today update =
     (case upd_checked update of None \<Rightarrow> [] | Some c \<Rightarrow> [Set_checked c]) @
     (case upd_status update of None \<Rightarrow> []
      | Some s \<Rightarrow> Set_status s #
          (if s = ''applied'' then [Set_applied_at (Some today)]
           else if s \<noteq> ''applied'' then [Set_applied_at None] else [])) @
     (case upd_notes update of None \<Rightarrow> [] | Some n \<Rightarrow> [Set_notes n])"

fun assign :: "job \<Rightarrow> assignment \<Rightarrow> job" where
  "assign j (Set_checked c) = j\<lparr>checked := c\<rparr>"
| "assign j (Set_status s) = j\<lparr>status := s\<rparr>"
| "assign j (Set_applied_at a) = j\<lparr>applied_at := a\<rparr>"
| "assign j (Set_notes n) = j\<lparr>job_notes := n\<rparr>"

definition sql_update :: "assignment list \<Rightarrow> int \<Rightarrow> database \<Rightarrow> database \<times> nat" where
  "sql_update updates i db =
     (db\<lparr>jobs := map (\<lambda>j. if job_id j = i then foldl assign j updates else j) (jobs db)\<rparr>,
      length (filter (\<lambda>j. job_id j = i) (jobs db)))"

datatype success = Success

definition update_job :: "string \<Rightarrow> int \<Rightarrow> job_update \<Rightarrow> database \<Rightarrow> (http_error + success) \<times> database" where
  "update_job today i update db =
     (let updates = build_updates today update in
      if updates = [] then (Inl (HTTPException 400 ''No updates provided''), db)
      else
        (let (db', rowcount) = sql_update updates i db in
         if rowcount = 0 then (Inl (HTTPException 404 ''Job not found''), db')
         else (Inr Success, db')))"

definition delete_job :: "int \<Rightarrow> database \<Rightarrow> (http_error + success) \<times> database" where
  "delete_job i db =
     (let rowcount = length (filter (\<lambda>j. job_id j = i) (jobs db));
          db' = db\<lparr>jobs := filter (\<lambda>j. job_id j \<noteq> i) (jobs db)\<rparr>
      in if rowcount = 0 then (Inl (HTTPException 404 ''Job not found''), db')
         else (Inr Success, db'))"

section \<open>Reconciliation: \<open>scrape_new_jobs\<close>\<close>

subsection \<open>Python strings\<close>

text \<open>\<open>s.split(d)\<close> for a one-character separator: always at least one piece.\<close>

fun split :: "char \<Rightarrow> string \<Rightarrow> string list" where
  "split d [] = [[]]"
| "split d (c # cs) =
     (if c = d then [] # split d cs
      else (case split d cs of [] \<Rightarrow> [[c]] | p # ps \<Rightarrow> (c # p) # ps))"

text \<open>\<open>sep.join(xs)\<close>.\<close>

fun join :: "string \<Rightarrow> string list \<Rightarrow> string" where
  "join sep [] = []"
| "join sep [x] = x"
| "join sep (x # y # zs) = x @ sep @ join sep (y # zs)"

text \<open>The characters below 256 for which \<open>str.isspace\<close> holds: tab to carriage return,
  the four separators 0x1C to 0x1F, the space, the next-line control U+0085 and the
  no-break space U+00A0.\<close>

definition isspace :: "char \<Rightarrow> bool" where
  "isspace c =
     ((CHR 0x09 \<le> c \<and> c \<le> CHR 0x0D) \<or> (CHR 0x1C \<le> c \<and> c \<le> CHR 0x1F) \<or> c = CHR '' '' \<or>
      c = CHR 0x85 \<or> c = CHR 0xA0)"

definition strip :: "string \<Rightarrow> string" where
  "strip s = rev (dropWhile isspace (rev (dropWhile isspace s)))"

subsection \<open>\<open>Series.str.contains(pattern, case=False, na=False)\<close>\<close>

text \<open>
  pandas compiles \<open>pattern\<close> as a regular expression with \<open>re.IGNORECASE\<close> and keeps the
  titles in which \<open>search\<close> finds a match; a missing title gives \<open>na\<close>, here \<open>False\<close>.
  The model interprets the patterns written with ordinary characters, the dot and the
  bar: alternatives separated by \<open>|\<close>, each a sequence of characters where \<open>.\<close> matches
  any character but the newline and every other character matches itself up to case.
  A pattern that uses another special character of \<open>re\<close> is handed to the parameter
  \<open>re_compile\<close>, which stands for the library there: \<open>None\<close> when \<open>re.compile\<close> raises
  \<open>re.error\<close>, else the predicate \<open>search\<close> computes.
\<close>

definition re_special :: "char list" where
  "re_special =
     [CHR 0x5C, CHR ''^'', CHR ''$'', CHR ''*'', CHR ''+'', CHR ''?'',
      CHR ''{'', CHR ''}'', CHR ''['', CHR '']'', CHR ''('', CHR '')'']"

datatype re_atom = Lit char | Dot

definition parse_alternative :: "string \<Rightarrow> re_atom list" where
  "parse_alternative s = map (\<lambda>c. if c = CHR ''.'' then Dot else Lit c) s"

fun atom_matches :: "re_atom \<Rightarrow> char \<Rightarrow> bool" where
  "atom_matches (Lit c) d = (lower_char c = lower_char d)"
| "atom_matches Dot d = (d \<noteq> CHR 0x0A)"

fun match_here :: "re_atom list \<Rightarrow> string \<Rightarrow> bool" where
  "match_here [] s = True"
| "match_here (a # as) [] = False"
| "match_here (a # as) (c # cs) = (atom_matches a c \<and> match_here as cs)"

fun search_atoms :: "re_atom list \<Rightarrow> string \<Rightarrow> bool" where
  "search_atoms p [] = match_here p []"
| "search_atoms p (c # cs) = (match_here p (c # cs) \<or> search_atoms p cs)"

definition re_search_ignorecase :: "string \<Rightarrow> string \<Rightarrow> bool" where
  "re_search_ignorecase pattern s =
     list_ex (\<lambda>alt. search_atoms (parse_alternative alt) s) (split (CHR ''|'') pattern)"

definition str_contains :: "(string \<Rightarrow> (string \<Rightarrow> bool) option) \<Rightarrow> string \<Rightarrow> (string option \<Rightarrow> bool) option" where
  "str_contains re_compile pattern =
     (let na = False in
      if list_ex (\<lambda>c. c \<in> set re_special) pattern then
        (case re_compile pattern of None \<Rightarrow> None
         | Some search \<Rightarrow> Some (\<lambda>t. case t of None \<Rightarrow> na | Some s \<Rightarrow> search s))
      else Some (\<lambda>t. case t of None \<Rightarrow> na | Some s \<Rightarrow> re_search_ignorecase pattern s))"

subsection \<open>The request, the provider and its rows\<close>

record scrape_request =
  req_search_query :: "string option"
  req_location :: "string option"
  req_results_wanted :: "int option"
  req_hours_old :: "int option"
  req_exclude_keywords :: "string option"

text \<open>
  A row of the frame \<open>scrape_jobs\<close> returns, as the function reads it: each field is the
  value its column binds in the \<open>INSERT\<close> (\<open>None\<close> for a missing value, which is stored
  as \<open>NULL\<close>). The provider's schema makes \<open>job_url\<close> a required string.
  \<open>row_date_posted\<close> is the text the date renders to with \<open>strftime('%Y-%m-%d')\<close>, and
  \<open>None\<close> for a date that \<open>pd.to_datetime(..., errors='coerce')\<close> turns into \<open>NaT\<close>; the
  order of these texts is the order of the dates. \<open>row_is_remote\<close> is the truth value
  of the cell.
\<close>

record scraped_row =
  row_site :: "string option"
  row_title :: "string option"
  row_company :: "string option"
  row_location :: "string option"
  row_job_type :: "string option"
  row_date_posted :: "string option"
  row_job_url :: string
  row_min_amount :: "real option"
  row_max_amount :: "real option"
  row_salary_source :: "string option"
  row_is_remote :: bool

record scrape_args =
  site_name :: "string list"
  search_term :: string
  arg_location :: "string option"
  results_wanted :: "int option"
  hours_old :: "int option"
  country_indeed :: string

text \<open>
  What a call of \<open>scrape_new_jobs\<close> reads from outside the database: whether the import
  of jobspy succeeded, the provider (\<open>Inl msg\<close> when the call raises an exception whose
  text is \<open>msg\<close>), the regular expression library outside the interpreted patterns, and
  \<open>CURRENT_TIMESTAMP\<close> at the k-th \<open>INSERT\<close> of the call.
\<close>

record environment =
  JOBSPY_AVAILABLE :: bool
  scrape_jobs :: "scrape_args \<Rightarrow> string + scraped_row list"
  re_compile :: "string \<Rightarrow> (string \<Rightarrow> bool) option"
  CURRENT_TIMESTAMP :: "nat \<Rightarrow> string"

record scrape_response =
  message :: string
  added :: nat
  skipped :: nat
  deleted :: "nat option"
  total_found :: "nat option"

definition default_search_query :: string where
  "default_search_query =
     [CHR 0x22] @ ''software engineer'' @ [CHR 0x22] @ '' OR '' @
     [CHR 0x22] @ ''software developer'' @ [CHR 0x22] @ '' OR '' @
     [CHR 0x22] @ ''qa engineer'' @ [CHR 0x22] @ '' OR '' @
     [CHR 0x22] @ ''quality assurance engineer'' @ [CHR 0x22] @ '' OR '' @
     [CHR 0x22] @ ''test engineer'' @ [CHR 0x22] @ '' OR '' @
     [CHR 0x22] @ ''software test engineer'' @ [CHR 0x22] @ '' OR '' @
     [CHR 0x22] @ ''Software Development Engineer'' @ [CHR 0x22]"

definition target_sites :: "string list" where
  "target_sites = [''indeed'', ''linkedin'', ''zip_recruiter'', ''glassdoor'']"

definition default_senior_keywords :: "string list" where
  "default_senior_keywords =
     [''senior'', ''sr.'', ''sr'', ''lead'', ''principal'', ''staff'', ''manager'',
      ''architect'', ''head'', ''director'']"

definition senior_keywords :: "scrape_request \<Rightarrow> string list" where
  "senior_keywords request =
     (case req_exclude_keywords request of
        None \<Rightarrow> default_senior_keywords
      | Some ks \<Rightarrow>
          if ks \<noteq> [] then map (\<lambda>k. lower (strip k)) (split (CHR '','') ks)
          else default_senior_keywords)"

text \<open>\<open>sort_values(by='date_posted', ascending=False)\<close>: newest first, missing dates
  last; rows with equal dates stay in the order of the frame.\<close>

definition sort_values_desc :: "scraped_row list \<Rightarrow> scraped_row list" where
  "sort_values_desc df = rev (sort_key row_date_posted (rev df))"

text \<open>\<open>df.head(n)\<close> is \<open>df.iloc[:n]\<close>: a negative \<open>n\<close> drops the last \<open>-n\<close> rows, \<open>None\<close>
  keeps all.\<close>

definition head :: "int option \<Rightarrow> 'a list \<Rightarrow> 'a list" where
  "head n df =
     (case n of None \<Rightarrow> df
      | Some k \<Rightarrow> if 0 \<le> k then take (nat k) df else take (length df - nat (- k)) df)"

definition scraped_values :: "scraped_row \<Rightarrow> insert_values" where
  "scraped_values row =
     \<lparr>v_site = row_site row, v_title = row_title row, v_company = row_company row,
      v_location = row_location row, v_job_type = row_job_type row,
      v_date_posted = row_date_posted row, v_job_url = Some (row_job_url row),
      v_salary_min = row_min_amount row, v_salary_max = row_max_amount row,
      v_salary_source = row_salary_source row, v_is_remote = row_is_remote row\<rparr>"

text \<open>The insert loop: \<open>k\<close> counts the statements executed, \<open>(n_added, n_skipped)\<close> are the two
  counters, and the \<open>Inl\<close> branch is the handler of \<open>sqlite3.IntegrityError\<close>.\<close>

fun insert_rows :: "(nat \<Rightarrow> string) \<Rightarrow> nat \<Rightarrow> insert_values list \<Rightarrow> nat \<times> nat \<Rightarrow> database \<Rightarrow> (nat \<times> nat) \<times> database" where
  "insert_rows clock k [] (n_added, n_skipped) db = ((n_added, n_skipped), db)"
| "insert_rows clock k (v # vs) (n_added, n_skipped) db =
     (case insert_or_ignore (clock k) v db of
        Inr db' \<Rightarrow> insert_rows clock (Suc k) vs (n_added + 1, n_skipped) db'
      | Inl IntegrityError \<Rightarrow> insert_rows clock (Suc k) vs (n_added, n_skipped + 1) db)"

definition is_new :: "job \<Rightarrow> bool" where
  "is_new j = (status j = ''new'')"

text \<open>The arguments of the call of \<open>scrape_jobs\<close>; an empty \<open>search_query\<close> is falsy and
  gives the default.\<close>

definition provider_args :: "scrape_request \<Rightarrow> scrape_args" where
  "provider_args request =
     (let search_query =
            (case req_search_query request of None \<Rightarrow> default_search_query
             | Some q \<Rightarrow> if q \<noteq> [] then q else default_search_query)
      in \<lparr>site_name = target_sites, search_term = search_query,
          arg_location = req_location request,
          results_wanted = req_results_wanted request,
          hours_old = req_hours_old request, country_indeed = ''USA''\<rparr>)"

text \<open>Lines 204 to 280: what the function does with a frame that is not empty, once the
  pattern is compiled (\<open>contains\<close> is the compiled title test).\<close>

definition reconcile :: "(nat \<Rightarrow> string) \<Rightarrow> (string option \<Rightarrow> bool) \<Rightarrow> int option \<Rightarrow> scraped_row list \<Rightarrow> database \<Rightarrow> scrape_response \<times> database" where
  "reconcile clock contains wanted jobs_df db =
     (let filtered_df = filter (\<lambda>row. \<not> contains (row_title row)) jobs_df;
          filtered_df = sort_values_desc filtered_df;
          filtered_df = head wanted filtered_df;
          preserved_urls = set (map job_url (filter (\<lambda>j. \<not> is_new j) (jobs db)));
          deleted_count = length (filter is_new (jobs db));
          db = db\<lparr>jobs := filter (\<lambda>j. \<not> is_new j) (jobs db)\<rparr>;
          filtered_df = filter (\<lambda>row. Some (row_job_url row) \<notin> preserved_urls) filtered_df;
          ((added_count, skipped_count), db) =
            insert_rows clock 0 (map scraped_values filtered_df) (0, 0) db
      in (\<lparr>message = ''Scraping complete'', added = added_count,
           skipped = skipped_count, deleted = Some deleted_count,
           total_found = Some (length filtered_df)\<rparr>, db))"

text \<open>An exception that is not an \<open>HTTPException\<close> (here \<open>re.error\<close> from the pattern)
  leaves the handler and the framework answers 500.\<close>

definition scrape_new_jobs :: "environment \<Rightarrow> scrape_request \<Rightarrow> database \<Rightarrow> (http_error + scrape_response) \<times> database" where
  "scrape_new_jobs env request db =
     (if \<not> JOBSPY_AVAILABLE env then
        (Inl (HTTPException 500 ''jobspy not installed. Run: pip install python-jobspy''), db)
      else
        (case scrape_jobs env (provider_args request) of
           Inl e \<Rightarrow> (Inl (HTTPException 500 (''Scraping failed: '' @ e)), db)
         | Inr jobs_df \<Rightarrow>
             if jobs_df = [] then
               (Inr \<lparr>message = ''No jobs found'', added = 0, skipped = 0,
                     deleted = None, total_found = None\<rparr>, db)
             else
               (let pattern = join ''|'' (senior_keywords request)
                in case str_contains (re_compile env) pattern of
                     None \<Rightarrow> (Inl Internal_Server_Error, db)
                   | Some contains \<Rightarrow>
                       (let (response, db') =
                              reconcile (CURRENT_TIMESTAMP env) contains
                                (req_results_wanted request) jobs_df db
                        in (Inr response, db')))))"

section \<open>CSV import: \<open>import_csv\<close>\<close>

text \<open>
  A row of the frame \<open>pd.read_csv\<close> returns, as the function reads it. An empty cell is
  read as NaN and stored as \<open>NULL\<close>, so every text field, \<open>job_url\<close> included, is an
  option. \<open>csv_date_posted\<close> is the text stored for the date: its \<open>strftime\<close> rendering
  when pandas parses the cell, else the cell's own text.
\<close>

record csv_row =
  csv_site :: "string option"
  csv_title :: "string option"
  csv_company :: "string option"
  csv_location :: "string option"
  csv_job_type :: "string option"
  csv_date_posted :: "string option"
  csv_job_url :: "string option"
  csv_min_amount :: "real option"
  csv_max_amount :: "real option"
  csv_is_remote :: bool

definition csv_values :: "csv_row \<Rightarrow> insert_values" where
  "csv_values row =
     \<lparr>v_site = csv_site row, v_title = csv_title row, v_company = csv_company row,
      v_location = csv_location row, v_job_type = csv_job_type row,
      v_date_posted = csv_date_posted row, v_job_url = csv_job_url row,
      v_salary_min = csv_min_amount row, v_salary_max = csv_max_amount row,
      v_salary_source = None, v_is_remote = csv_is_remote row\<rparr>"

text \<open>The import loop: the bare \<open>except: pass\<close> leaves the counter alone.\<close>

fun import_rows :: "(nat \<Rightarrow> string) \<Rightarrow> nat \<Rightarrow> insert_values list \<Rightarrow> nat \<Rightarrow> database \<Rightarrow> nat \<times> database" where
  "import_rows clock k [] n_added db = (n_added, db)"
| "import_rows clock k (v # vs) n_added db =
     (case insert_or_ignore (clock k) v db of
        Inr db' \<Rightarrow> import_rows clock (Suc k) vs (n_added + 1) db'
      | Inl _ \<Rightarrow> import_rows clock (Suc k) vs n_added db)"

text \<open>\<open>csv_file\<close> is \<open>None\<close> when the file does not exist. The result is the number in the
  message \<open>Imported {added} jobs from CSV\<close>.\<close>

definition import_csv :: "(nat \<Rightarrow> string) \<Rightarrow> csv_row list option \<Rightarrow> database \<Rightarrow> (http_error + nat) \<times> database" where
  "import_csv clock csv_file db =
     (case csv_file of
        None \<Rightarrow> (Inl (HTTPException 404 ''CSV file not found''), db)
      | Some df \<Rightarrow>
          (let (added_count, db') = import_rows clock 0 (map csv_values df) 0 db
           in (Inr added_count, db')))"

section \<open>Sequences of operations\<close>

datatype operation =
    Scrape environment scrape_request
  | Import_csv "nat \<Rightarrow> string" "csv_row list option"
  | Update string int job_update
  | Delete int

fun step :: "database \<Rightarrow> operation \<Rightarrow> database" where
  "step db (Scrape env request) = snd (scrape_new_jobs env request db)"
| "step db (Import_csv clock csv_file) = snd (import_csv clock csv_file db)"
| "step db (Update today i update) = snd (update_job today i update db)"
| "step db (Delete i) = snd (delete_job i db)"

definition run :: "operation list \<Rightarrow> database \<Rightarrow> database" where
  "run ops db = foldl step db ops"

section \<open>Predicates of the specification\<close>

text \<open>No two rows hold the same URL; a row whose \<open>job_url\<close> is \<open>NULL\<close> holds none.\<close>

definition url_unique :: "database \<Rightarrow> bool" where
  "url_unique db = distinct (filter (\<lambda>u. u \<noteq> None) (map job_url (jobs db)))"

text \<open>The exclusion rule in the specification's words: the title contains the keyword
  as a substring, up to letter case.\<close>

fun starts_with_ignorecase :: "string \<Rightarrow> string \<Rightarrow> bool" where
  "starts_with_ignorecase [] s = True"
| "starts_with_ignorecase (k # ks) [] = False"
| "starts_with_ignorecase (k # ks) (c # cs) =
     (lower_char k = lower_char c \<and> starts_with_ignorecase ks cs)"

fun contains_ignorecase :: "string \<Rightarrow> string \<Rightarrow> bool" where
  "contains_ignorecase k [] = starts_with_ignorecase k []"
| "contains_ignorecase k (c # cs) =
     (starts_with_ignorecase k (c # cs) \<or> contains_ignorecase k cs)"

definition spec_excluded :: "string list \<Rightarrow> string option \<Rightarrow> bool" where
  "spec_excluded keywords t =
     (case t of None \<Rightarrow> False | Some s \<Rightarrow> list_ex (\<lambda>k. contains_ignorecase k s) keywords)"

text \<open>The filters of the listing in the specification's words: the status is matched
  exactly unless it is the sentinel \<open>all\<close>, \<open>checked\<close> is matched exactly, and the search
  text is a substring of the title, the company or the location, up to letter case.\<close>

definition field_contains :: "string \<Rightarrow> string option \<Rightarrow> bool" where
  "field_contains q col = (case col of None \<Rightarrow> False | Some s \<Rightarrow> contains_ignorecase q s)"

definition spec_matches :: "string option \<Rightarrow> bool option \<Rightarrow> string option \<Rightarrow> job \<Rightarrow> bool" where
  "spec_matches st ch se j =
     ((case st of None \<Rightarrow> True | Some s \<Rightarrow> s = ''all'' \<or> status j = s) \<and>
      (case ch of None \<Rightarrow> True | Some c \<Rightarrow> checked j = c) \<and>
      (case se of None \<Rightarrow> True
       | Some q \<Rightarrow> field_contains q (title j) \<or> field_contains q (company j)
                   \<or> field_contains q (location j)))"

text \<open>A search text of ASCII characters none of which is a wildcard of \<open>LIKE\<close>.\<close>

definition plain_search :: "string \<Rightarrow> bool" where
  "plain_search q =
     list_all (\<lambda>c. c \<noteq> CHR ''%'' \<and> c \<noteq> CHR ''_'' \<and> c < CHR 0x80) q"

text \<open>A keyword written without any character that is special in a regular
  expression.\<close>

definition plain_keyword :: "string \<Rightarrow> bool" where
  "plain_keyword k = list_all (\<lambda>c. c \<notin> set re_special \<and> c \<noteq> CHR ''.'' \<and> c \<noteq> CHR ''|'') k"

text \<open>Descending order on the two keys of \<open>get_jobs\<close>, with \<open>NULL\<close> dates last.\<close>

definition listed_before :: "job \<Rightarrow> job \<Rightarrow> bool" where
  "listed_before a b =
     (date_posted b < date_posted a \<or>
      (date_posted b = date_posted a \<and> created_at b \<le> created_at a))"

section \<open>Concrete stores and requests\<close>

definition example_job :: "int \<Rightarrow> string \<Rightarrow> string \<Rightarrow> string option \<Rightarrow> string \<Rightarrow> job" where
  "example_job i u st d c =
     \<lparr>job_id = i, site = Some ''indeed'', title = Some ''Engineer'', company = Some ''Acme'',
      location = Some ''Phoenix, AZ'', job_type = Some ''fulltime'', date_posted = d,
      job_url = Some u, salary_min = None, salary_max = None, salary_source = None,
      is_remote = False, checked = False, status = st, job_notes = [],
      applied_at = (if st = ''applied'' then Some ''2024-04-30'' else None),
      created_at = c\<rparr>"

definition example_store :: database where
  "example_store =
     \<lparr>jobs = [example_job 1 ''u1'' ''applied'' (Some ''2024-04-28'') ''2024-04-29 08:00:00'',
              example_job 2 ''u2'' ''new'' None ''2024-04-29 08:00:00''],
      sqlite_sequence = 2\<rparr>"

definition example_row :: "string \<Rightarrow> string \<Rightarrow> scraped_row" where
  "example_row u t =
     \<lparr>row_site = Some ''linkedin'', row_title = Some t, row_company = Some ''Initech'',
      row_location = Some ''Austin, TX'', row_job_type = Some ''fulltime'',
      row_date_posted = Some ''2024-05-01'', row_job_url = u, row_min_amount = None,
      row_max_amount = None, row_salary_source = None, row_is_remote = False\<rparr>"

definition example_clock :: "nat \<Rightarrow> string" where
  "example_clock k = ''2024-05-02 10:00:00''"

definition example_env :: "string + scraped_row list \<Rightarrow> environment" where
  "example_env outcome =
     \<lparr>JOBSPY_AVAILABLE = True, scrape_jobs = (\<lambda>args. outcome), re_compile = (\<lambda>p. None),
      CURRENT_TIMESTAMP = example_clock\<rparr>"

definition example_request :: "string option \<Rightarrow> scrape_request" where
  "example_request keywords =
     \<lparr>req_search_query = None, req_location = Some ''USA'', req_results_wanted = Some 100,
      req_hours_old = Some 72, req_exclude_keywords = keywords\<rparr>"

definition example_csv_row :: "string option \<Rightarrow> csv_row" where
  "example_csv_row u =
     \<lparr>csv_site = Some ''indeed'', csv_title = Some ''Engineer'', csv_company = Some ''Acme'',
      csv_location = Some ''Phoenix, AZ'', csv_job_type = Some ''fulltime'',
      csv_date_posted = Some ''2024-04-28'', csv_job_url = u, csv_min_amount = None,
      csv_max_amount = None, csv_is_remote = False\<rparr>"

definition example_listing :: database where
  "example_listing =
     \<lparr>jobs = [example_job 1 ''u1'' ''applied'' (Some ''2024-04-28'') ''2024-04-29 08:00:00'',
              (example_job 2 ''u2'' ''new'' None ''2024-04-29 09:00:00'')
                \<lparr>title := Some ''QA Tester'', checked := True\<rparr>,
              (example_job 3 ''u3'' ''new'' (Some ''2024-05-01'') ''2024-05-02 10:00:00'')
                \<lparr>title := Some ''Data_Analyst'', company := None\<rparr>,
              example_job 4 ''u4'' ''new'' (Some ''2024-04-28'') ''2024-05-02 10:00:00'',
              (example_job 5 ''u5'' ''new'' (Some ''2024-04-28'') ''2024-05-02 10:00:00'')
                \<lparr>title := None, company := None, location := None\<rparr>],
      sqlite_sequence = 5\<rparr>"

section \<open>Listing with an empty status\<close>

lemma where_clause_empty_status: "where_clause (Some []) ch se = where_clause None ch se"
  by (rule ext) (simp add: where_clause_def)

lemma where_clause_all_status: "where_clause (Some ''all'') ch se = where_clause None ch se"
  by (rule ext) (simp add: where_clause_def)

text \<open>
  C10. On every store and with any \<open>checked\<close> and \<open>search\<close> filters, \<open>get_jobs\<close> called with
  the empty string as status returns what it returns with no status at all, and what it
  returns with the sentinel \<open>all\<close>: the empty string is not an exact-match filter, and
  every row passes the status test.
\<close>

theorem get_jobs_empty_status:
  "get_jobs (Some '''') ch se db = get_jobs None ch se db \<and>
   get_jobs (Some '''') ch se db = get_jobs (Some ''all'') ch se db \<and>
   where_clause (Some '''') None None j"
  by (simp add: get_jobs_def where_clause_empty_status where_clause_all_status)
    (simp add: where_clause_def)

section \<open>Update with no field\<close>

text \<open>
  C6. For every id and every store, \<open>update_job\<close> with none of \<open>checked\<close>, \<open>status\<close> and
  \<open>notes\<close> supplied fails with status code 400 and leaves the store as it was.
\<close>

theorem update_job_no_fields:
  "update_job today i \<lparr>upd_checked = None, upd_status = None, upd_notes = None\<rparr> db =
     (Inl (HTTPException 400 ''No updates provided''), db)"
  by (simp add: update_job_def build_updates_def)

section \<open>Reconciliation: the provider fails or finds nothing\<close>

text \<open>
  C5. On every store, when the call of the provider raises, \<open>scrape_new_jobs\<close> answers
  with the error 500 that carries the provider's message, and the store after the call
  is the store before it: nothing is deleted and nothing is inserted.
\<close>

theorem scrape_provider_failure:
  "JOBSPY_AVAILABLE env \<Longrightarrow> scrape_jobs env (provider_args request) = Inl e \<Longrightarrow>
   scrape_new_jobs env request db =
     (Inl (HTTPException 500 (''Scraping failed: '' @ e)), db)"
  by (simp add: scrape_new_jobs_def)

theorem scrape_provider_failure_witness:
  "JOBSPY_AVAILABLE (example_env (Inl ''timeout'')) \<and>
   scrape_jobs (example_env (Inl ''timeout'')) (provider_args (example_request None))
     = Inl ''timeout'' \<and>
   scrape_new_jobs (example_env (Inl ''timeout'')) (example_request None) example_store
     = (Inl (HTTPException 500 ''Scraping failed: timeout''), example_store)"
  using scrape_provider_failure
    [of "example_env (Inl ''timeout'')" "example_request None" "''timeout''" example_store]
  by (simp add: example_env_def)

text \<open>
  C9. On every store, when the provider returns no row, \<open>scrape_new_jobs\<close> reports
  \<open>added = 0\<close> and \<open>skipped = 0\<close> and returns the store as it was: no row is deleted, the
  rows with status \<open>new\<close> included.
\<close>

theorem scrape_no_jobs_found:
  "JOBSPY_AVAILABLE env \<Longrightarrow> scrape_jobs env (provider_args request) = Inr [] \<Longrightarrow>
   scrape_new_jobs env request db =
     (Inr \<lparr>message = ''No jobs found'', added = 0, skipped = 0, deleted = None,
           total_found = None\<rparr>, db)"
  by (simp add: scrape_new_jobs_def)

theorem scrape_no_jobs_found_witness:
  "JOBSPY_AVAILABLE (example_env (Inr [])) \<and>
   scrape_jobs (example_env (Inr [])) (provider_args (example_request None)) = Inr [] \<and>
   scrape_new_jobs (example_env (Inr [])) (example_request None) example_store
     = (Inr \<lparr>message = ''No jobs found'', added = 0, skipped = 0, deleted = None,
             total_found = None\<rparr>, example_store) \<and>
   filter is_new (jobs example_store) \<noteq> []"
  using scrape_no_jobs_found [of "example_env (Inr [])" "example_request None" example_store]
  by (simp add: example_env_def example_store_def example_job_def is_new_def)

section \<open>Listing: order and matching set\<close>

lemma order_by_desc_sorted: "sorted_wrt (\<lambda>a b. order_key b \<le> order_key a) (order_by_desc js)"
proof -
  have "sorted (map order_key (sort_key order_key (rev js)))" by (rule sorted_sort_key)
  then have "sorted_wrt (\<lambda>a b. order_key a \<le> order_key b) (sort_key order_key (rev js))"
    by (simp add: sorted_map)
  then show ?thesis by (simp add: order_by_desc_def sorted_wrt_rev)
qed

lemma order_key_listed_before: "order_key b \<le> order_key a \<Longrightarrow> listed_before a b"
  by (auto simp: order_key_def listed_before_def)

lemma order_key_null_last:
  "order_key b \<le> order_key a \<Longrightarrow> date_posted a = None \<Longrightarrow> date_posted b = None"
  by (cases "date_posted b") (auto simp: order_key_def)

lemma mset_order_by_desc: "mset (order_by_desc js) = mset js"
  by (simp add: order_by_desc_def)

text \<open>
  For every combination of the three filters, the listing holds each row that passes
  the \<open>WHERE\<close> clause once (there is no limit or offset), \<open>total\<close> is their number, and
  the rows come by \<open>date_posted\<close> descending, then \<open>created_at\<close> descending, the rows
  without \<open>date_posted\<close> last.
\<close>

lemma get_jobs_permutation_ordered:
  "mset (fst (get_jobs st ch se db)) = mset (filter (where_clause st ch se) (jobs db)) \<and>
   snd (get_jobs st ch se db) = length (filter (where_clause st ch se) (jobs db)) \<and>
   mset (fst (get_jobs None None None db)) = mset (jobs db) \<and>
   sorted_wrt listed_before (fst (get_jobs st ch se db)) \<and>
   sorted_wrt (\<lambda>a b. date_posted a = None \<longrightarrow> date_posted b = None)
     (fst (get_jobs st ch se db))"
proof -
  let ?m = "filter (where_clause st ch se) (jobs db)"
  have res: "fst (get_jobs st ch se db) = order_by_desc ?m"
    by (simp add: get_jobs_def Let_def)
  have len: "snd (get_jobs st ch se db) = length ?m"
    by (simp add: get_jobs_def Let_def order_by_desc_def)
  have all: "where_clause None None None = (\<lambda>j. True)"
    by (rule ext) (simp add: where_clause_def)
  have full: "mset (fst (get_jobs None None None db)) = mset (jobs db)"
    by (simp add: get_jobs_def Let_def all mset_order_by_desc)
  have s1: "sorted_wrt listed_before (order_by_desc ?m)"
    using order_by_desc_sorted [of ?m]
    by (rule sorted_wrt_mono_rel [rotated]) (rule order_key_listed_before)
  have s2: "sorted_wrt (\<lambda>a b. date_posted a = None \<longrightarrow> date_posted b = None) (order_by_desc ?m)"
    using order_by_desc_sorted [of ?m]
    by (rule sorted_wrt_mono_rel [rotated]) (auto dest: order_key_null_last)
  show ?thesis using res len full s1 s2 by (simp add: mset_order_by_desc)
qed

subsection \<open>The \<open>WHERE\<close> clause and the filters of the specification\<close>

lemma of_char_sqlite_lower:
  "(of_char (sqlite_lower c) :: nat) =
     (if 65 \<le> (of_char c :: nat) \<and> (of_char c :: nat) \<le> 90 then of_char c + 32 else of_char c)"
  by (simp add: sqlite_lower_def less_eq_char_def)

lemma of_char_lower_char:
  "(of_char (lower_char c) :: nat) =
     (if (65 \<le> (of_char c :: nat) \<and> (of_char c :: nat) \<le> 90) \<or>
         (192 \<le> (of_char c :: nat) \<and> (of_char c :: nat) \<le> 222 \<and> (of_char c :: nat) \<noteq> 215)
      then of_char c + 32 else of_char c)"
proof -
  have neq: "c \<noteq> CHR 0xD7 \<longleftrightarrow> (of_char c :: nat) \<noteq> 215"
    using of_char_eq_iff [of c "CHR 0xD7", where ?'a = nat] by simp
  show ?thesis
    by (simp add: lower_char_def less_eq_char_def neq)
qed

lemma fold_agree:
  assumes "p < CHR 0x80"
  shows "(sqlite_lower p = sqlite_lower c) = (lower_char p = lower_char c)"
proof -
  have n: "(of_char p :: nat) < 128" using assms by (simp add: less_char_def)
  have m: "(of_char c :: nat) < 256" by simp
  have "(sqlite_lower p = sqlite_lower c) =
      ((of_char (sqlite_lower p) :: nat) = of_char (sqlite_lower c))" by simp
  also have "\<dots> = ((of_char (lower_char p) :: nat) = of_char (lower_char c))"
    unfolding of_char_sqlite_lower of_char_lower_char using n m by auto
  also have "\<dots> = (lower_char p = lower_char c)" by simp
  finally show ?thesis .
qed

lemma like_percent: "like ''%'' t"
  by (induction t) simp_all

lemma like_prefix:
  "plain_search q \<Longrightarrow> like (q @ ''%'') t = starts_with_ignorecase q t"
proof (induction q t rule: starts_with_ignorecase.induct)
  case (1 s)
  show ?case using like_percent by simp
next
  case (2 k ks)
  then show ?case by (simp add: plain_search_def)
next
  case (3 k ks c cs)
  then have k: "k \<noteq> CHR ''%''" "k \<noteq> CHR ''_''" "k < CHR 0x80" and ks: "plain_search ks"
    by (simp_all add: plain_search_def)
  show ?case using k "3.IH" [OF ks] by (simp add: fold_agree)
qed

lemma like_contains:
  "plain_search q \<Longrightarrow> like (CHR ''%'' # q @ ''%'') s = contains_ignorecase q s"
  by (induction s) (simp_all add: like_prefix)

lemma column_like_field_contains:
  "plain_search q \<Longrightarrow> column_like (''%'' @ q @ ''%'') col = field_contains q col"
  by (cases col) (simp_all add: column_like_def field_contains_def like_contains del: like.simps)

text \<open>
  With a status that is not the empty string and a search text that is not empty, is
  ASCII and holds no \<open>%\<close> and no \<open>_\<close>, the rows that pass the \<open>WHERE\<close> clause are the rows
  that match in the specification's sense, so the listing is that set.
\<close>

lemma where_clause_spec_matches:
  assumes "st \<noteq> Some []"
    and "case se of None \<Rightarrow> True | Some q \<Rightarrow> q \<noteq> [] \<and> plain_search q"
  shows "where_clause st ch se = spec_matches st ch se"
proof (rule ext)
  fix j :: job
  have a: "(case st of None \<Rightarrow> True
        | Some s \<Rightarrow> if s \<noteq> [] \<and> s \<noteq> ''all'' then status j = s else True)
      = (case st of None \<Rightarrow> True | Some s \<Rightarrow> s = ''all'' \<or> status j = s)"
    using assms(1) by (cases st) auto
  have b: "(case se of None \<Rightarrow> True
       | Some q \<Rightarrow> if q \<noteq> [] then
           (let search_pattern = ''%'' @ q @ ''%''
            in column_like search_pattern (title j) \<or> column_like search_pattern (company j)
               \<or> column_like search_pattern (location j))
         else True)
      = (case se of None \<Rightarrow> True
       | Some q \<Rightarrow> field_contains q (title j) \<or> field_contains q (company j)
                   \<or> field_contains q (location j))"
  proof (cases se)
    case None
    then show ?thesis by simp
  next
    case (Some q)
    then have "q \<noteq> []" "plain_search q" using assms(2) by simp_all
    then show ?thesis using Some
      by (simp only: option.case Let_def if_True column_like_field_contains not_False_eq_True)
  qed
  show "where_clause st ch se j = spec_matches st ch se j"
    unfolding where_clause_def spec_matches_def a b ..
qed

lemma get_jobs_plain_search:
  assumes "st \<noteq> Some []"
    and "case se of None \<Rightarrow> True | Some q \<Rightarrow> q \<noteq> [] \<and> plain_search q"
  shows "mset (fst (get_jobs st ch se db)) = mset (filter (spec_matches st ch se) (jobs db))"
  using where_clause_spec_matches [OF assms]
  by (simp add: get_jobs_def Let_def order_by_desc_def)

text \<open>
  C8. A store of five rows, listed with the search text \<open>_\<close>. One row holds an
  underscore (in its title), so the matching set is that row; the listing returns four
  rows, every row with a title, company or location, and \<open>total = 4\<close>: the search text
  is put between two \<open>%\<close> and handed to \<open>LIKE\<close>, where \<open>_\<close> stands for any character.
  The four rows do come newest first, the row without date last. With the filters
  \<open>new\<close>, unchecked and \<open>ACME\<close> the listing is the one matching row, and with no filter
  it is all five rows, the two that tie on both keys in rowid order.
\<close>

theorem search_wildcard_lists_other_rows:
  "map job_id (filter (spec_matches None None (Some ''_'')) (jobs example_listing)) = [3] \<and>
   map job_id (fst (get_jobs None None (Some ''_'') example_listing)) = [3, 4, 1, 2] \<and>
   snd (get_jobs None None (Some ''_'') example_listing) = 4 \<and>
   map job_id (fst (get_jobs (Some ''new'') (Some False) (Some ''ACME'') example_listing)) = [4] \<and>
   map job_id (fst (get_jobs None None None example_listing)) = [3, 4, 5, 1, 2]"
  by code_simp

section \<open>Update: \<open>applied_at\<close> follows the supplied status\<close>

lemma foldl_assign_build_updates:
  "applied_at (foldl assign j (build_updates today u)) =
     (case upd_status u of None \<Rightarrow> applied_at j
      | Some s \<Rightarrow> if s = ''applied'' then Some today else None) \<and>
   status (foldl assign j (build_updates today u)) =
     (case upd_status u of None \<Rightarrow> status j | Some s \<Rightarrow> s)"
  by (cases "upd_checked u"; cases "upd_status u"; cases "upd_notes u")
     (simp_all add: build_updates_def)

lemma jobs_update_job:
  "jobs (snd (update_job today jid u db)) =
     map (\<lambda>j. if job_id j = jid then foldl assign j (build_updates today u) else j) (jobs db)"
  by (cases "build_updates today u = []")
     (simp_all add: update_job_def sql_update_def Let_def map_idI)

text \<open>
  C3. \<open>update_job\<close> keeps every row in its place, and changes only the rows with the
  given id. In such a row, when the update supplies a status, the status is the supplied
  one and \<open>applied_at\<close> is today's date if the supplied status is \<open>applied\<close> and \<open>NULL\<close>
  otherwise, whatever status and \<open>applied_at\<close> the row had before; so \<open>applied_at\<close> is not
  \<open>NULL\<close> exactly when the supplied status is \<open>applied\<close>. When the update supplies no
  status, status and \<open>applied_at\<close> stay as they were.
\<close>

theorem update_job_applied_at:
  "length (jobs (snd (update_job today jid u db))) = length (jobs db) \<and>
   (\<forall>k < length (jobs db).
      let j = jobs db ! k; j' = jobs (snd (update_job today jid u db)) ! k in
      (job_id j \<noteq> jid \<longrightarrow> j' = j) \<and>
      (job_id j = jid \<longrightarrow>
         (case upd_status u of
            Some s \<Rightarrow> status j' = s \<and>
                      applied_at j' = (if s = ''applied'' then Some today else None) \<and>
                      (applied_at j' \<noteq> None \<longleftrightarrow> s = ''applied'')
          | None \<Rightarrow> status j' = status j \<and> applied_at j' = applied_at j)))"
  by (auto simp: jobs_update_job foldl_assign_build_updates Let_def split: option.splits)

theorem update_job_applied_at_witness:
  "status (jobs example_store ! 0) = ''applied'' \<and>
   applied_at (jobs example_store ! 0) = Some ''2024-04-30'' \<and>
   fst (update_job ''2024-05-03'' 1
          \<lparr>upd_checked = None, upd_status = Some ''applied'', upd_notes = None\<rparr> example_store)
     = Inr Success \<and>
   applied_at (jobs (snd (update_job ''2024-05-03'' 1
          \<lparr>upd_checked = None, upd_status = Some ''applied'', upd_notes = None\<rparr> example_store)) ! 0)
     = Some ''2024-05-03'' \<and>
   applied_at (jobs (snd (update_job ''2024-05-03'' 1
          \<lparr>upd_checked = None, upd_status = Some ''rejected'', upd_notes = None\<rparr> example_store)) ! 0)
     = None \<and>
   applied_at (jobs (snd (update_job ''2024-05-03'' 1
          \<lparr>upd_checked = Some True, upd_status = None, upd_notes = None\<rparr> example_store)) ! 0)
     = Some ''2024-04-30'' \<and>
   jobs (snd (update_job ''2024-05-03'' 1
          \<lparr>upd_checked = None, upd_status = Some ''applied'', upd_notes = None\<rparr> example_store)) ! 1
     = jobs example_store ! 1"
  using update_job_applied_at [of "''2024-05-03''" 1
      "\<lparr>upd_checked = None, upd_status = Some ''applied'', upd_notes = None\<rparr>" example_store]
    update_job_applied_at [of "''2024-05-03''" 1
      "\<lparr>upd_checked = None, upd_status = Some ''rejected'', upd_notes = None\<rparr>" example_store]
    update_job_applied_at [of "''2024-05-03''" 1
      "\<lparr>upd_checked = Some True, upd_status = None, upd_notes = None\<rparr>" example_store]
  by (simp add: update_job_def build_updates_def sql_update_def example_store_def
      example_job_def)

section \<open>The insert loops\<close>

lemma insert_or_ignore_cases:
  "insert_or_ignore now v db = Inr (db\<lparr>sqlite_sequence := sqlite_sequence db + 1\<rparr>) \<and>
     unique_conflict v db \<or>
   insert_or_ignore now v db =
     Inr \<lparr>jobs = jobs db @ [new_job (sqlite_sequence db + 1) now v],
          sqlite_sequence = sqlite_sequence db + 1\<rparr> \<and> \<not> unique_conflict v db"
  by (simp add: insert_or_ignore_def Let_def)

lemma insert_rows_counters:
  "fst (insert_rows clock k vs (a, s) db) = (a + length vs, s)"
  by (induction vs arbitrary: k a s db) (simp_all add: insert_or_ignore_def Let_def)

lemma import_rows_counter:
  "fst (import_rows clock k vs a db) = a + length vs"
  by (induction vs arbitrary: k a db) (simp_all add: insert_or_ignore_def Let_def)


lemma is_new_new_job: "is_new (new_job i now v)"
  by (simp add: is_new_def new_job_def)

lemma job_url_new_job: "job_url (new_job i now v) = v_job_url v"
  by (simp add: new_job_def)

lemma insert_rows_appends:
  "\<exists>ns. jobs (snd (insert_rows clock k vs c db)) = jobs db @ ns \<and>
        (\<forall>n\<in>set ns. is_new n \<and> job_url n \<in> v_job_url ` set vs)"
proof (induction vs arbitrary: k c db)
  case Nil
  show ?case by (cases c) simp
next
  case (Cons v vs)
  obtain a s where c: "c = (a, s)" by (cases c)
  from insert_or_ignore_cases [of "clock k" v db] show ?case
  proof
    let ?db = "db\<lparr>sqlite_sequence := sqlite_sequence db + 1\<rparr>"
    assume h: "insert_or_ignore (clock k) v db = Inr ?db \<and> unique_conflict v db"
    from Cons.IH [of "Suc k" "(a + 1, s)" ?db] obtain ns where
      "jobs (snd (insert_rows clock (Suc k) vs (a + 1, s) ?db)) = jobs ?db @ ns"
      "\<forall>n\<in>set ns. is_new n \<and> job_url n \<in> v_job_url ` set vs" by blast
    with h c show ?thesis by auto
  next
    let ?db = "\<lparr>jobs = jobs db @ [new_job (sqlite_sequence db + 1) (clock k) v],
          sqlite_sequence = sqlite_sequence db + 1\<rparr>"
    assume h: "insert_or_ignore (clock k) v db = Inr ?db \<and> \<not> unique_conflict v db"
    from Cons.IH [of "Suc k" "(a + 1, s)" ?db] obtain ns where
      ns: "jobs (snd (insert_rows clock (Suc k) vs (a + 1, s) ?db)) = jobs ?db @ ns"
      "\<forall>n\<in>set ns. is_new n \<and> job_url n \<in> v_job_url ` set vs" by blast
    have "jobs (snd (insert_rows clock k (v # vs) c db)) =
            jobs db @ (new_job (sqlite_sequence db + 1) (clock k) v # ns)"
      using h c ns(1) by simp
    moreover have "\<forall>n\<in>set (new_job (sqlite_sequence db + 1) (clock k) v # ns).
        is_new n \<and> job_url n \<in> v_job_url ` set (v # vs)"
      using ns(2) by (auto simp: is_new_new_job job_url_new_job)
    ultimately show ?thesis by blast
  qed
qed

lemma job_url_in_image:
  "x \<in> set xs \<Longrightarrow> job_url x = Some u \<Longrightarrow> Some u \<in> job_url ` set xs"
  by (metis imageI)




lemma unique_url_filter_single:
  "distinct (filter (\<lambda>u. u \<noteq> None) (map job_url xs)) \<Longrightarrow> j \<in> set xs \<Longrightarrow>
   job_url j = Some u \<Longrightarrow> filter (\<lambda>x. job_url x = Some u) xs = [j]"
proof (induction xs)
  case Nil
  then show ?case by simp
next
  case (Cons x xs)
  show ?case
  proof (cases "job_url x = Some u")
    case True
    then have "Some u \<notin> set (map job_url xs)" using Cons.prems(1) by auto
    then have none: "filter (\<lambda>x. job_url x = Some u) xs = []"
      by (auto simp: filter_empty_conv dest: job_url_in_image)
    have "j = x"
    proof (rule ccontr)
      assume "j \<noteq> x"
      then have "j \<in> set xs" using Cons.prems(2) by simp
      then have "Some u \<in> set (map job_url xs)" using Cons.prems(3) by force
      then show False using \<open>Some u \<notin> set (map job_url xs)\<close> by simp
    qed
    then show ?thesis using True none by simp
  next
    case False
    then have "j \<in> set xs" using Cons.prems(2,3) by auto
    moreover have "distinct (filter (\<lambda>u. u \<noteq> None) (map job_url xs))"
      using Cons.prems(1) by (simp split: if_splits)
    ultimately show ?thesis using Cons.IH Cons.prems(3) False by simp
  qed
qed

lemma reconcile_counters:
  "added (fst (reconcile clock contains wanted df db)) =
     the (total_found (fst (reconcile clock contains wanted df db))) \<and>
   skipped (fst (reconcile clock contains wanted df db)) = 0"
  by (simp add: reconcile_def Let_def case_prod_unfold insert_rows_counters)

text \<open>
  C1. A provider batch that holds the same URL twice, on an empty store: one row is
  stored, and the response reports \<open>added = 2\<close>, \<open>skipped = 0\<close>. A CSV file of one row
  whose URL is already in the store: no row is added or changed, and the import reports one
  job imported. (\<open>insert_rows_counters\<close> and \<open>import_rows_counter\<close>: the counter
  \<open>added\<close> is the number of rows attempted, whatever the store holds.)
\<close>

theorem duplicate_url_counted_as_added:
  "fst (scrape_new_jobs
     (example_env (Inr [example_row ''u3'' ''Engineer'', example_row ''u3'' ''Engineer'']))
     (example_request None) init_db) =
     Inr \<lparr>message = ''Scraping complete'', added = 2, skipped = 0, deleted = Some 0,
          total_found = Some 2\<rparr> \<and>
   jobs (snd (scrape_new_jobs
     (example_env (Inr [example_row ''u3'' ''Engineer'', example_row ''u3'' ''Engineer'']))
     (example_request None) init_db)) =
     [new_job 1 ''2024-05-02 10:00:00'' (scraped_values (example_row ''u3'' ''Engineer''))] \<and>
   fst (import_csv example_clock (Some [example_csv_row (Some ''u1'')]) example_store) = Inr 1 \<and>
   jobs (snd (import_csv example_clock (Some [example_csv_row (Some ''u1'')]) example_store))
     = jobs example_store"
  by code_simp

section \<open>Reconciliation keeps the curated rows\<close>

lemma reconcile_jobs:
  "\<exists>ns. jobs (snd (reconcile clock contains wanted df db)) =
          filter (\<lambda>j. \<not> is_new j) (jobs db) @ ns \<and>
        (\<forall>n\<in>set ns. is_new n \<and>
           job_url n \<notin> job_url ` set (filter (\<lambda>j. \<not> is_new j) (jobs db)))"
proof -
  let ?cur = "filter (\<lambda>j. \<not> is_new j) (jobs db)"
  let ?rows = "filter (\<lambda>row. Some (row_job_url row) \<notin> set (map job_url ?cur))
      (head wanted (sort_values_desc (filter (\<lambda>row. \<not> contains (row_title row)) df)))"
  have eq: "snd (reconcile clock contains wanted df db) =
      snd (insert_rows clock 0 (map scraped_values ?rows) (0, 0) (db\<lparr>jobs := ?cur\<rparr>))"
    by (simp add: reconcile_def Let_def case_prod_unfold)
  obtain ns where ns:
    "jobs (snd (insert_rows clock 0 (map scraped_values ?rows) (0, 0) (db\<lparr>jobs := ?cur\<rparr>)))
       = jobs (db\<lparr>jobs := ?cur\<rparr>) @ ns"
    "\<forall>n\<in>set ns. is_new n \<and> job_url n \<in> v_job_url ` set (map scraped_values ?rows)"
    using insert_rows_appends by blast
  have "job_url n \<notin> job_url ` set ?cur" if "n \<in> set ns" for n
  proof -
    from ns(2) that obtain row where "row \<in> set ?rows" "job_url n = v_job_url (scraped_values row)"
      by auto
    then show ?thesis by (auto simp: scraped_values_def)
  qed
  with ns eq show ?thesis by auto
qed

lemma scrape_new_jobs_store:
  "snd (scrape_new_jobs env request db) = db \<or>
   (\<exists>contains df.
      snd (scrape_new_jobs env request db) =
        snd (reconcile (CURRENT_TIMESTAMP env) contains (req_results_wanted request) df db))"
  by (auto simp: scrape_new_jobs_def Let_def case_prod_unfold split: sum.splits option.splits)

lemma curated_after_append:
  "\<forall>n\<in>set ns. is_new n \<Longrightarrow>
   filter (\<lambda>j. \<not> is_new j) (filter (\<lambda>j. \<not> is_new j) xs @ ns) = filter (\<lambda>j. \<not> is_new j) xs"
  by (simp add: filter_empty_conv)

text \<open>
  C2. For every store, request and provider result, the rows whose status is not \<open>new\<close>
  are the same after \<open>scrape_new_jobs\<close> as before it, in the same order and each once:
  none is deleted, changed or duplicated. And on a store whose URLs are unique, a URL
  held by such a row is held by that row alone afterwards: no provider row with that
  URL is inserted.
\<close>

theorem reconcile_preserves_curated:
  "filter (\<lambda>j. \<not> is_new j) (jobs (snd (scrape_new_jobs env request db)))
     = filter (\<lambda>j. \<not> is_new j) (jobs db) \<and>
   (url_unique db \<longrightarrow>
      (\<forall>j\<in>set (jobs db). \<not> is_new j \<longrightarrow>
         (\<forall>u. job_url j = Some u \<longrightarrow>
            filter (\<lambda>j'. job_url j' = Some u) (jobs (snd (scrape_new_jobs env request db))) = [j])))"
proof -
  let ?db' = "snd (scrape_new_jobs env request db)"
  let ?cur = "filter (\<lambda>j. \<not> is_new j) (jobs db)"
  have single: "filter (\<lambda>j'. job_url j' = Some u) (jobs db) = [j]"
    if "url_unique db" "j \<in> set (jobs db)" "job_url j = Some u" for j u
    using that unique_url_filter_single by (simp add: url_unique_def)
  from scrape_new_jobs_store [of env request db] show ?thesis
  proof
    assume "?db' = db"
    then show ?thesis using single by simp
  next
    assume "\<exists>contains df. ?db' =
        snd (reconcile (CURRENT_TIMESTAMP env) contains (req_results_wanted request) df db)"
    then obtain ns where ns: "jobs ?db' = ?cur @ ns"
        "\<forall>n\<in>set ns. is_new n \<and> job_url n \<notin> job_url ` set ?cur"
      using reconcile_jobs by metis
    have kept: "filter (\<lambda>j. \<not> is_new j) (jobs ?db') = ?cur"
      using ns by (simp add: curated_after_append)
    have one: "filter (\<lambda>j'. job_url j' = Some u) (jobs ?db') = [j]"
      if u: "url_unique db" and j: "j \<in> set (jobs db)" "\<not> is_new j" "job_url j = Some u" for j u
    proof -
      have "Some u \<in> job_url ` set ?cur" using j by force
      then have "filter (\<lambda>j'. job_url j' = Some u) ns = []"
        using ns(2) by (auto simp: filter_empty_conv)
      moreover have "filter (\<lambda>j'. job_url j' = Some u) ?cur
          = filter (\<lambda>j. \<not> is_new j) (filter (\<lambda>j'. job_url j' = Some u) (jobs db))"
        by (simp add: conj_commute)
      ultimately show ?thesis using single [OF u j(1) j(3)] j(2) ns(1) by simp
    qed
    show ?thesis using kept one by blast
  qed
qed

theorem reconcile_preserves_curated_witness:
  "url_unique example_store \<and>
   jobs example_store ! 0 \<in> set (jobs example_store) \<and>
   \<not> is_new (jobs example_store ! 0) \<and> job_url (jobs example_store ! 0) = Some ''u1'' \<and>
   filter (\<lambda>j'. job_url j' = Some ''u1'') (jobs (snd (scrape_new_jobs
     (example_env (Inr [example_row ''u1'' ''Engineer'', example_row ''u3'' ''Senior Engineer'']))
     (example_request None) example_store))) = [jobs example_store ! 0] \<and>
   fst (scrape_new_jobs
     (example_env (Inr [example_row ''u1'' ''Engineer'', example_row ''u3'' ''Senior Engineer'']))
     (example_request None) example_store) =
     Inr \<lparr>message = ''Scraping complete'', added = 0, skipped = 0, deleted = Some 1,
          total_found = Some 0\<rparr> \<and>
   jobs (snd (scrape_new_jobs
     (example_env (Inr [example_row ''u1'' ''Engineer'', example_row ''u3'' ''Senior Engineer'']))
     (example_request None) example_store)) = [jobs example_store ! 0]"
proof -
  let ?env = "example_env (Inr [example_row ''u1'' ''Engineer'', example_row ''u3'' ''Senior Engineer''])"
  have pre: "url_unique example_store \<and> jobs example_store ! 0 \<in> set (jobs example_store) \<and>
      \<not> is_new (jobs example_store ! 0) \<and> job_url (jobs example_store ! 0) = Some ''u1''"
    by code_simp
  have run: "fst (scrape_new_jobs ?env (example_request None) example_store) =
        Inr \<lparr>message = ''Scraping complete'', added = 0, skipped = 0, deleted = Some 1,
          total_found = Some 0\<rparr> \<and>
      jobs (snd (scrape_new_jobs ?env (example_request None) example_store))
        = [jobs example_store ! 0]"
    by code_simp
  have "filter (\<lambda>j'. job_url j' = Some ''u1'')
      (jobs (snd (scrape_new_jobs ?env (example_request None) example_store)))
      = [jobs example_store ! 0]"
    using reconcile_preserves_curated [of ?env "example_request None" example_store] pre
    by blast
  then show ?thesis using pre run by blast
qed

section \<open>Uniqueness of \<open>job_url\<close>\<close>







section \<open>The title filter\<close>

text \<open>Where the filter of the code and the rule of the specification agree: on every
  list of keywords without special characters, and on the default list (a title that
  matches \<open>sr.\<close> as an expression, or contains it as text, contains \<open>sr\<close>).\<close>

lemma match_here_literals: "match_here (map Lit k) s = starts_with_ignorecase k s"
  by (induction k s rule: starts_with_ignorecase.induct) simp_all

lemma search_atoms_literals: "search_atoms (map Lit k) s = contains_ignorecase k s"
  by (induction s) (simp_all add: match_here_literals)

lemma parse_alternative_plain:
  "CHR ''.'' \<notin> set k \<Longrightarrow> parse_alternative k = map Lit k"
  unfolding parse_alternative_def by (induction k) auto

lemma split_plain: "d \<notin> set x \<Longrightarrow> split d x = [x]"
  by (induction x) auto

lemma split_append: "d \<notin> set x \<Longrightarrow> split d (x @ d # rest) = x # split d rest"
  by (induction x) auto

lemma split_join:
  "ks \<noteq> [] \<Longrightarrow> \<forall>k\<in>set ks. d \<notin> set k \<Longrightarrow> split d (join [d] ks) = ks"
  by (induction "[d]" ks rule: join.induct) (simp_all add: split_plain split_append)

lemma set_join: "set (join sep ks) \<subseteq> set sep \<union> \<Union> (set ` set ks)"
  by (induction sep ks rule: join.induct) auto

lemma plain_keywords_filter:
  assumes "ks \<noteq> []" and "list_all plain_keyword ks"
  shows "str_contains rc (join ''|'' ks) = Some (spec_excluded ks)"
proof -
  have plain: "\<forall>k\<in>set ks. \<forall>c\<in>set k. c \<notin> set re_special \<and> c \<noteq> CHR ''.'' \<and> c \<noteq> CHR ''|''"
    using assms(2) by (auto simp: plain_keyword_def list_all_iff)
  have "CHR ''|'' \<notin> set re_special" by (simp add: re_special_def)
  then have nospecial: "\<not> list_ex (\<lambda>c. c \<in> set re_special) (join ''|'' ks)"
    using set_join [of "''|''" ks] plain by (auto simp: list_ex_iff)
  have sp: "split (CHR ''|'') (join ''|'' ks) = ks"
    using split_join [of ks "CHR ''|''"] assms(1) plain by auto
  have alt: "search_atoms (parse_alternative k) s = contains_ignorecase k s" if "k \<in> set ks" for k s
  proof -
    have "CHR ''.'' \<notin> set k" using that plain by auto
    then show ?thesis by (simp add: parse_alternative_plain search_atoms_literals)
  qed
  have "re_search_ignorecase (join ''|'' ks) s = list_ex (\<lambda>k. contains_ignorecase k s) ks" for s
    by (simp add: re_search_ignorecase_def sp list_ex_iff alt)
  then have "(\<lambda>t. case t of None \<Rightarrow> False | Some s \<Rightarrow> re_search_ignorecase (join ''|'' ks) s)
      = spec_excluded ks"
    by (intro ext) (simp add: spec_excluded_def split: option.splits)
  then show ?thesis using nospecial by (simp add: str_contains_def)
qed

lemma match_here_prefix: "match_here (p @ q) s \<Longrightarrow> match_here p s"
  by (induction p s rule: match_here.induct) simp_all

lemma search_atoms_prefix: "search_atoms (p @ q) s \<Longrightarrow> search_atoms p s"
  by (induction s) (auto dest: match_here_prefix)

lemma starts_with_prefix: "starts_with_ignorecase (k @ k') s \<Longrightarrow> starts_with_ignorecase k s"
  by (induction k s rule: starts_with_ignorecase.induct) simp_all

lemma contains_prefix: "contains_ignorecase (k @ k') s \<Longrightarrow> contains_ignorecase k s"
  by (induction s) (auto dest: starts_with_prefix)

lemma default_keywords_filter:
  "str_contains rc (join ''|'' default_senior_keywords) = Some (spec_excluded default_senior_keywords)"
proof -
  let ?rest = "[''senior'', ''sr'', ''lead'', ''principal'', ''staff'', ''manager'',
      ''architect'', ''head'', ''director'']"
  have pat: "join ''|'' default_senior_keywords
      = ''senior|sr.|sr|lead|principal|staff|manager|architect|head|director''"
    by (simp add: default_senior_keywords_def)
  have nospecial: "\<not> list_ex (\<lambda>c. c \<in> set re_special) (join ''|'' default_senior_keywords)"
    unfolding pat by (simp add: re_special_def)
  have sp: "split (CHR ''|'') (join ''|'' default_senior_keywords) = default_senior_keywords"
    unfolding pat by (simp add: default_senior_keywords_def)
  have plain: "search_atoms (parse_alternative k) s = contains_ignorecase k s"
    if "k \<in> set ?rest" for k s
  proof -
    have "CHR ''.'' \<notin> set k" using that by auto
    then show ?thesis by (simp add: parse_alternative_plain search_atoms_literals)
  qed
  have dot1: "search_atoms (parse_alternative ''sr.'') s \<Longrightarrow> contains_ignorecase ''sr'' s" for s
  proof -
    assume "search_atoms (parse_alternative ''sr.'') s"
    then have "search_atoms (map Lit ''sr'' @ [Dot]) s" by (simp add: parse_alternative_def)
    then have "search_atoms (map Lit ''sr'') s" by (rule search_atoms_prefix)
    then show ?thesis by (simp only: search_atoms_literals)
  qed
  have dot2: "contains_ignorecase ''sr.'' s \<Longrightarrow> contains_ignorecase ''sr'' s" for s
    using contains_prefix [of "''sr''" "''.''" s] by simp
  have "re_search_ignorecase (join ''|'' default_senior_keywords) s
      = list_ex (\<lambda>k. contains_ignorecase k s) default_senior_keywords" for s
  proof -
    have l: "re_search_ignorecase (join ''|'' default_senior_keywords) s \<longleftrightarrow>
        search_atoms (parse_alternative ''sr.'') s \<or>
        (\<exists>k\<in>set ?rest. search_atoms (parse_alternative k) s)"
      unfolding re_search_ignorecase_def sp list_ex_iff
      by (simp add: default_senior_keywords_def) blast
    have r: "list_ex (\<lambda>k. contains_ignorecase k s) default_senior_keywords \<longleftrightarrow>
        contains_ignorecase ''sr.'' s \<or> (\<exists>k\<in>set ?rest. contains_ignorecase k s)"
      unfolding list_ex_iff by (simp add: default_senior_keywords_def) blast
    have sr: "''sr'' \<in> set ?rest" by simp
    have m: "(\<exists>k\<in>set ?rest. search_atoms (parse_alternative k) s)
        = (\<exists>k\<in>set ?rest. contains_ignorecase k s)"
      using plain by blast
    show ?thesis unfolding l r m using dot1 dot2 sr by blast
  qed
  then have "(\<lambda>t. case t of None \<Rightarrow> False
        | Some s \<Rightarrow> re_search_ignorecase (join ''|'' default_senior_keywords) s)
      = spec_excluded default_senior_keywords"
    by (intro ext) (simp add: spec_excluded_def split: option.splits)
  then show ?thesis using nospecial by (simp add: str_contains_def)
qed

text \<open>
  C7. The caller excludes the keyword \<open>.net\<close> and the provider returns one row titled
  \<open>Internet Engineer\<close>. The title does not contain the keyword, yet the row is excluded:
  nothing is inserted (with the keyword \<open>lead\<close> the same row is inserted). The keyword
  is read as a regular expression, in which the dot matches any character.
\<close>

theorem regex_keyword_excludes_other_titles:
  "senior_keywords (example_request (Some ''.net'')) = [''.net''] \<and>
   \<not> spec_excluded [''.net''] (Some ''Internet Engineer'') \<and>
   fst (scrape_new_jobs (example_env (Inr [example_row ''u5'' ''Internet Engineer'']))
     (example_request (Some ''.net'')) init_db) =
     Inr \<lparr>message = ''Scraping complete'', added = 0, skipped = 0, deleted = Some 0,
          total_found = Some 0\<rparr> \<and>
   jobs (snd (scrape_new_jobs (example_env (Inr [example_row ''u5'' ''Internet Engineer'']))
     (example_request (Some ''.net'')) init_db)) = [] \<and>
   fst (scrape_new_jobs (example_env (Inr [example_row ''u5'' ''Internet Engineer'']))
     (example_request (Some ''lead'')) init_db) =
     Inr \<lparr>message = ''Scraping complete'', added = 1, skipped = 0, deleted = Some 0,
          total_found = Some 1\<rparr> \<and>
   jobs (snd (scrape_new_jobs (example_env (Inr [example_row ''u5'' ''Internet Engineer'']))
     (example_request (Some ''lead'')) init_db)) =
     [new_job 1 ''2024-05-02 10:00:00''
        (scraped_values (example_row ''u5'' ''Internet Engineer''))]"
  by code_simp

end
